theory Spec2Isabelle
  imports Complex_Main
begin

section \<open>Values shared by the three source files\<close>

text \<open>
  A JavaScript exception.  \<open>Error m\<close> is \<open>new Error(m)\<close>, thrown by the repository's own
  code; \<open>SyntaxError\<close> is what \<open>JSON.parse\<close> and \<open>response.json()\<close> throw; \<open>TypeError\<close> is a
  property read on \<open>undefined\<close> or \<open>null\<close>; \<open>DOMException n\<close> is a browser exception with name \<open>n\<close>
  (storage, media devices, network).
\<close>

datatype js_error = Error string | SyntaxError | TypeError | DOMException string

text \<open>
  A JavaScript string, represented by what \<open>JSON.parse\<close> makes of it: \<open>Json v\<close> is a
  text that is valid JSON and parses to the value \<open>v\<close>; \<open>Raw s\<close> are the characters \<open>s\<close>,
  which are not valid JSON (or are never parsed: keys, time stamps).  The type parameter
  says which parsed values a text can stand for: for the entry \<open>analysis_history\<close>, which
  only this program writes, the lists of history items; for the content of a vision
  response, which comes from the network, \<open>null\<close> or an object of the shape the prompt asks
  for (\<open>analysis nullable\<close> below).  Valid JSON of any other shape is not represented, and
  the model says nothing about it.
\<close>

datatype 'a json_text = Raw string | Json 'a

text \<open>A parsed JSON value that is either \<open>null\<close> or an object of the expected shape.\<close>

datatype 'a nullable = Null | Object 'a

text \<open>
  \<open>JSON.parse\<close> throws a \<open>SyntaxError\<close> on a text that is not valid JSON and returns the
  parsed value otherwise.  The grammar of JSON is not modelled: a text comes with the
  value it parses to, and \<open>JSON.stringify\<close> gives the text that parses to its argument.
\<close>

fun JSON_parse :: "'a json_text \<Rightarrow> js_error + 'a" where
  "JSON_parse (Raw s) = Inl SyntaxError"
| "JSON_parse (Json v) = Inr v"

definition JSON_stringify :: "'a \<Rightarrow> 'a json_text" where
  "JSON_stringify v = Json v"

text \<open>JavaScript truthiness of a string value: only the empty string is falsy.\<close>

fun truthy :: "'a json_text \<Rightarrow> bool" where
  "truthy (Raw s) = (s \<noteq> [])"
| "truthy (Json v) = True"

text \<open>Decimal rendering of a number, as a template literal does for an integer.\<close>

fun string_of_nat :: "nat \<Rightarrow> string" where
  "string_of_nat n =
     (if n < 10 then [''0123456789'' ! n]
      else string_of_nat (n div 10) @ [''0123456789'' ! (n mod 10)])"

declare string_of_nat.simps [simp del]

record recipe =
  name :: string
  description :: string
  ingredients :: "string list"
  instructions :: "string list"
  cookingTime :: string
  difficulty :: string

text \<open>The object the vision model is asked for: \<open>{foodDetected, recipes}\<close>.\<close>

record analysis =
  foodDetected :: string
  recipes :: "recipe list"

text \<open>
  \<open>historyItem\<close> of \<open>saveToHistory\<close>: \<open>{id, timestamp, foodDetected, recipes}\<close>.
\<close>

record historyItem = analysis +
  id_item :: nat
  timestamp :: string

text \<open>The two clock readings of \<open>saveToHistory\<close>: \<open>Date.now()\<close> and \<open>new Date().toISOString()\<close>.\<close>

record clock =
  now :: nat
  toISOString :: string

section \<open>Web storage\<close>

text \<open>
  \<open>localStorage\<close> and \<open>sessionStorage\<close>.  The source wraps its accesses in \<open>try/catch\<close>, so the
  model has the two ways a storage area fails: \<open>Full\<close> (every \<open>setItem\<close> throws
  \<open>QuotaExceededError\<close>, reads and removals work) and \<open>Blocked\<close> (every access throws
  \<open>SecurityError\<close>).
\<close>

datatype storage_mode = Working | Full | Blocked

record storage =
  items :: "string \<rightharpoonup> historyItem list json_text"
  mode :: storage_mode

definition getItem :: "storage \<Rightarrow> string \<Rightarrow> js_error + historyItem list json_text option" where
  "getItem s k =
     (if mode s = Blocked then Inl (DOMException ''SecurityError'') else Inr (items s k))"

definition setItem :: "storage \<Rightarrow> string \<Rightarrow> historyItem list json_text \<Rightarrow> js_error + storage" where
  "setItem s k v =
     (case mode s of
        Working \<Rightarrow> Inr (s\<lparr>items := (items s)(k \<mapsto> v)\<rparr>)
      | Full \<Rightarrow> Inl (DOMException ''QuotaExceededError'')
      | Blocked \<Rightarrow> Inl (DOMException ''SecurityError''))"

definition removeItem :: "storage \<Rightarrow> string \<Rightarrow> js_error + storage" where
  "removeItem s k =
     (if mode s = Blocked then Inl (DOMException ''SecurityError'')
      else Inr (s\<lparr>items := (items s)(k := None)\<rparr>))"

section \<open>History store (FoodAnalyzerApp.getHistory, saveToHistory)\<close>

definition getHistory :: "storage \<Rightarrow> historyItem list" where
  "getHistory ls =
     (case getItem ls ''analysis_history'' of
        Inl e \<Rightarrow> []
      | Inr None \<Rightarrow> []
      | Inr (Some history) \<Rightarrow>
          (if truthy history
           then (case JSON_parse history of Inl e \<Rightarrow> [] | Inr h \<Rightarrow> h)
           else []))"

text \<open>The object literal \<open>historyItem\<close> built by \<open>saveToHistory\<close>.\<close>

definition historyItem :: "clock \<Rightarrow> analysis \<Rightarrow> historyItem" where
  "historyItem c a =
     \<lparr>foodDetected = foodDetected a, recipes = recipes a,
      id_item = now c, timestamp = toISOString c\<rparr>"

text \<open>
  \<open>history.unshift(historyItem)\<close>, \<open>history.slice(0, 10)\<close>, \<open>localStorage.setItem\<close>; the
  \<open>catch\<close> only warns on the console, so a failed write leaves the storage as it was.
\<close>

definition saveToHistory :: "storage \<Rightarrow> clock \<Rightarrow> analysis \<Rightarrow> storage" where
  "saveToHistory ls c a =
     (let history = getHistory ls;
          trimmedHistory = take 10 (historyItem c a # history)
      in case setItem ls ''analysis_history'' (JSON_stringify trimmedHistory) of
           Inl e \<Rightarrow> ls
         | Inr ls' \<Rightarrow> ls')"

text \<open>A sequence of appends, oldest first, each with its clock readings.\<close>

fun saveAll :: "storage \<Rightarrow> (clock \<times> analysis) list \<Rightarrow> storage" where
  "saveAll ls [] = ls"
| "saveAll ls (ca # rest) = saveAll (saveToHistory ls (fst ca) (snd ca)) rest"

section \<open>Program state\<close>

text \<open>
  A JavaScript string that may come out of web storage.  The API key is stored under
  \<open>groq_api_key\<close> in the same storage areas as the history, so it has the type of their
  entries; a key typed by the user is \<open>Raw k\<close>.
\<close>

type_synonym js_string = "historyItem list json_text"

text \<open>
  \<open>String.prototype.trim\<close> on the ASCII white space (tab, line feed, vertical tab, form
  feed, carriage return, space).  A character is a byte here, so the white space beyond
  ASCII that JavaScript also strips is left in place.
\<close>

definition isWhiteSpace :: "char \<Rightarrow> bool" where
  "isWhiteSpace c = (of_char c \<in> {9, 10, 11, 12, 13, 32 :: nat})"

definition trim :: "string \<Rightarrow> string" where
  "trim s = rev (dropWhile isWhiteSpace (rev (dropWhile isWhiteSpace s)))"

fun trim_js :: "js_string \<Rightarrow> js_string" where
  "trim_js (Raw s) = Raw (trim s)"
| "trim_js (Json v) = Json v"

text \<open>
  \<open>String.prototype.toLowerCase\<close> on the ASCII letters; bytes outside \<open>A\<close>..\<open>Z\<close> are kept.
\<close>

definition toLowerCase :: "string \<Rightarrow> string" where
  "toLowerCase s =
     map (\<lambda>c. case map_of (zip ''ABCDEFGHIJKLMNOPQRSTUVWXYZ'' ''abcdefghijklmnopqrstuvwxyz'') c of
                None \<Rightarrow> c
              | Some l \<Rightarrow> l) s"

text \<open>
  The stream of \<open>getUserMedia\<close>: the settings of its video track (\<open>facingMode\<close> may be
  undefined, \<open>width\<close> and \<open>height\<close> are the frame size the video element reports as
  \<open>videoWidth\<close> and \<open>videoHeight\<close>), whether the track is enabled and whether it is live
  (not stopped).
\<close>

record MediaStream =
  facingMode :: "string option"
  width :: nat
  height :: nat
  enabled :: bool
  live :: bool

text \<open>The \<open>facingMode\<close> constraint of a request; the size constraints are the same in both.\<close>

datatype constraints = Ideal string | Exact string

datatype media_outcome = Granted MediaStream | Denied js_error

text \<open>What \<open>captureImage\<close> returns: the JPEG of the canvas, as its size and quality factor.\<close>

record capturedImage =
  canvas_width :: nat
  canvas_height :: nat
  quality :: rat

text \<open>A file chosen in the upload control, with the outcome of \<open>FileReader.readAsDataURL\<close>.\<close>

record File =
  type_file :: string
  size_file :: nat
  readAsDataURL :: "js_error + string"

datatype imageData = Captured capturedImage | DataURL string

text \<open>
  The body of an HTTP response, by what the source reads of it.  The source reads a JSON
  body in two ways: \<open>data.choices[0].message.content\<close> when the status is a success, and
  \<open>errorData.error?.message || fallback\<close> when it is not.
  \<^item> \<open>Completion c\<close>: a JSON value on which \<open>choices[0].message.content\<close> can be read
    without an exception, \<open>c\<close> being that content as \<open>JSON.parse\<close> receives it (converted
    to a string); its \<open>error?.message\<close> is falsy.
  \<^item> \<open>ErrorEnvelope m\<close>: a JSON value other than \<open>null\<close> whose \<open>error?.message\<close> is truthy
    and prints as \<open>m\<close> in a template literal; reading \<open>choices[0].message.content\<close>
    throws.
  \<^item> \<open>OtherJson\<close>: any other JSON value except \<open>null\<close>: \<open>error?.message\<close> is falsy and
    reading \<open>choices[0].message.content\<close> throws.
  \<^item> \<open>NullJson\<close>: the JSON value \<open>null\<close>, on which every property read throws.
  \<^item> \<open>NotJson\<close>: bytes that are not JSON.
  A call reads a body in one of the two ways only, so a JSON value with both a readable
  content and a truthy error message is a \<open>Completion\<close> under a success status and an
  \<open>ErrorEnvelope\<close> under any other.
\<close>

datatype body =
    Completion "analysis nullable json_text"
  | ErrorEnvelope string
  | OtherJson
  | NullJson
  | NotJson

record response =
  status :: nat
  body :: body

datatype fetch_outcome = Resolved response | Rejected js_error

datatype blob = Blob body

text \<open>The JSON body of a request.\<close>

datatype payload = VisionRequest imageData | TestRequest | SpeechRequest string

text \<open>
  The effects that leave the program: a network request (URL, bearer token, body), a request
  for a camera stream, a frame drawn to the canvas and encoded, a file read.
\<close>

datatype event =
    Fetch string "js_string option" payload
  | GetUserMedia constraints
  | Capture capturedImage
  | ReadFile

record button =
  textContent :: string
  disabled :: bool
  hidden :: bool

text \<open>
  The fields of the three objects (\<open>GroqAPI\<close>, \<open>CameraManager\<close>, \<open>FoodAnalyzerApp\<close>), the
  parts of the page the modelled methods write, the two storage areas and the trace of
  effects.  \<open>video.srcObject\<close> is always the object in \<open>this.stream\<close>, so the stream stands
  for both.  \<open>canvasError\<close> is the condition of the canvas: the exception that drawing to
  it or encoding it raises, if any.
\<close>

record state =
  apiKey :: "js_string option"
  this_recipes :: "recipe list"
  stream :: "MediaStream option"
  isInitialized :: bool
  cameraError :: "js_error option"
  canvasError :: "js_error option"
  isAnalyzing :: bool
  loadingHidden :: bool
  resultsHidden :: bool
  analyzeBtnDisabled :: bool
  foodDetectedEl :: string
  audioPlayer_src :: "blob option"
  audioPlayer_shown :: bool
  recipeButtons :: "button list"
  errorMessage :: "(string \<times> js_error option) option"
  fileUpload_value :: string
  localStorage :: storage
  sessionStorage :: storage
  trace :: "event list"

text \<open>
  The objects as their constructors leave them (\<open>GroqAPI\<close>: no key, no recipes;
  \<open>CameraManager\<close>: no stream, not initialized; \<open>FoodAnalyzerApp\<close>: not analyzing), on a
  page that shows neither the loading nor the results section, with a canvas that works,
  the given recipe buttons and storage areas.
\<close>

definition constructor :: "button list \<Rightarrow> storage \<Rightarrow> storage \<Rightarrow> state" where
  "constructor buttons ls ss =
     \<lparr>apiKey = None, this_recipes = [], stream = None, isInitialized = False,
      cameraError = None, canvasError = None, isAnalyzing = False, loadingHidden = True,
      resultsHidden = True,
      analyzeBtnDisabled = False, foodDetectedEl = [], audioPlayer_src = None,
      audioPlayer_shown = False, recipeButtons = buttons, errorMessage = None,
      fileUpload_value = [], localStorage = ls, sessionStorage = ss, trace = []\<rparr>"

section \<open>GroqAPI\<close>

definition baseUrl :: string where
  "baseUrl = ''https://api.groq.com/openai/v1''"

text \<open>
  \<open>setApiKey\<close>: the key and a time stamp go to \<open>localStorage\<close>; when that throws, to
  \<open>sessionStorage\<close>; when that throws too, the failure is only logged.
\<close>

definition setApiKey :: "state \<Rightarrow> js_string \<Rightarrow> nat \<Rightarrow> state" where
  "setApiKey st k date_now =
     (let st1 = st\<lparr>apiKey := Some k\<rparr>;
          fallback = (\<lambda>st2.
            case setItem (sessionStorage st2) ''groq_api_key'' k of
              Inl e \<Rightarrow> st2
            | Inr ss1 \<Rightarrow>
                (case setItem ss1 ''groq_api_key_timestamp'' (Raw (string_of_nat date_now)) of
                   Inl e \<Rightarrow> st2\<lparr>sessionStorage := ss1\<rparr>
                 | Inr ss2 \<Rightarrow> st2\<lparr>sessionStorage := ss2\<rparr>))
      in case setItem (localStorage st1) ''groq_api_key'' k of
           Inl e \<Rightarrow> fallback st1
         | Inr ls1 \<Rightarrow>
             (case setItem ls1 ''groq_api_key_timestamp'' (Raw (string_of_nat date_now)) of
                Inl e \<Rightarrow> fallback (st1\<lparr>localStorage := ls1\<rparr>)
              | Inr ls2 \<Rightarrow> st1\<lparr>localStorage := ls2\<rparr>))"

fun falsy :: "js_string option \<Rightarrow> bool" where
  "falsy None = True"
| "falsy (Some k) = (\<not> truthy k)"

text \<open>
  \<open>getApiKey\<close> caches what it reads in \<open>this.apiKey\<close>.  An exception of either storage
  area lands in the one \<open>catch\<close>, which resets the key to \<open>null\<close>.
\<close>

definition getApiKey :: "state \<Rightarrow> js_string option \<times> state" where
  "getApiKey st =
     (if falsy (apiKey st)
      then (case getItem (localStorage st) ''groq_api_key'' of
              Inl e \<Rightarrow> (None, st\<lparr>apiKey := None\<rparr>)
            | Inr k \<Rightarrow>
                if falsy k
                then (case getItem (sessionStorage st) ''groq_api_key'' of
                        Inl e \<Rightarrow> (None, st\<lparr>apiKey := None\<rparr>)
                      | Inr k' \<Rightarrow> (k', st\<lparr>apiKey := k'\<rparr>))
                else (k, st\<lparr>apiKey := k\<rparr>))
      else (apiKey st, st))"

text \<open>\<open>!!(apiKey && apiKey.trim().length > 0)\<close>\<close>

definition isConfigured :: "state \<Rightarrow> bool \<times> state" where
  "isConfigured st =
     (let (k, st') = getApiKey st
      in (case k of None \<Rightarrow> False | Some k' \<Rightarrow> truthy k' \<and> truthy (trim_js k'), st'))"

text \<open>
  \<open>clearApiKey\<close> has no \<open>try\<close>: an exception of \<open>localStorage.removeItem\<close> reaches the
  caller, after \<open>this.apiKey\<close> was reset.
\<close>

definition clearApiKey :: "state \<Rightarrow> (js_error + unit) \<times> state" where
  "clearApiKey st =
     (let st1 = st\<lparr>apiKey := None\<rparr>
      in case removeItem (localStorage st1) ''groq_api_key'' of
           Inl e \<Rightarrow> (Inl e, st1)
         | Inr ls \<Rightarrow> (Inr (), st1\<lparr>localStorage := ls\<rparr>))"

text \<open>\<open>response.ok\<close> of the Fetch standard: the status is in the range 200 to 299.\<close>

definition ok :: "response \<Rightarrow> bool" where
  "ok r = (200 \<le> status r \<and> status r \<le> 299)"

text \<open>\<open>await response.json()\<close>\<close>

fun json :: "body \<Rightarrow> js_error + body" where
  "json NotJson = Inl SyntaxError"
| "json b = Inr b"

text \<open>
  \<open>errorData.error?.message || fallback\<close>, where \<open>errorData\<close> is
  \<open>await response.json().catch(() => ({}))\<close>: the empty object when the body is not JSON.
  When the body is \<open>null\<close>, \<open>errorData.error\<close> throws a \<open>TypeError\<close>: the optional chaining
  guards \<open>error\<close>, not \<open>errorData\<close>.
\<close>

fun errorMessageOr :: "body \<Rightarrow> string \<Rightarrow> js_error + string" where
  "errorMessageOr NullJson fallback = Inl TypeError"
| "errorMessageOr (ErrorEnvelope m) fallback = Inr m"
| "errorMessageOr b fallback = Inr fallback"

text \<open>\<open>data.choices[0].message.content\<close>\<close>

fun content :: "body \<Rightarrow> js_error + analysis nullable json_text" where
  "content (Completion c) = Inr c"
| "content b = Inl TypeError"

text \<open>
  \<open>GroqAPI.analyzeFood\<close> after its \<open>fetch\<close> has settled: the status check, the two parses
  and the read of \<open>analysisResult.recipes\<close>, which throws a \<open>TypeError\<close> when the content
  parsed to \<open>null\<close>.  There is no check of the number of recipes.
\<close>

definition visionResult :: "fetch_outcome \<Rightarrow> js_error + analysis" where
  "visionResult outcome =
     (case outcome of
        Rejected e \<Rightarrow> Inl e
      | Resolved response \<Rightarrow>
          if \<not> ok response
          then (case errorMessageOr (body response) ''Unknown error'' of
                  Inl e \<Rightarrow> Inl e
                | Inr message \<Rightarrow>
                    Inl (Error (''Vision API error: '' @ string_of_nat (status response) @ '' - ''
                                @ message)))
          else (case json (body response) of
                  Inl e \<Rightarrow> Inl e
                | Inr data \<Rightarrow>
                    (case content data of
                       Inl e \<Rightarrow> Inl e
                     | Inr c \<Rightarrow>
                         (case JSON_parse c of
                            Inl e \<Rightarrow> Inl e
                          | Inr Null \<Rightarrow> Inl TypeError
                          | Inr (Object analysisResult) \<Rightarrow> Inr analysisResult))))"

definition analyzeFood :: "state \<Rightarrow> imageData \<Rightarrow> fetch_outcome \<Rightarrow> (js_error + analysis) \<times> state" where
  "analyzeFood st img outcome =
     (let (configured, st1) = isConfigured st
      in if \<not> configured then (Inl (Error ''API key not configured''), st1)
         else
           let (key, st2) = getApiKey st1;
               st3 = st2\<lparr>trace := trace st2 @
                        [Fetch (baseUrl @ ''/chat/completions'') key (VisionRequest img)]\<rparr>
           in case visionResult outcome of
                Inl e \<Rightarrow> (Inl e, st3)
              | Inr analysisResult \<Rightarrow>
                  (Inr analysisResult, st3\<lparr>this_recipes := recipes analysisResult\<rparr>))"

text \<open>
  The template literal of \<open>generateVoiceDescription\<close>.  \<open>recipes[i].name\<close> throws a
  \<open>TypeError\<close> when the list has no element \<open>i\<close>.
\<close>

definition indent :: string where
  "indent = ''            ''"

definition description_text :: "string \<Rightarrow> recipe list \<Rightarrow> js_error + string" where
  "description_text food rs =
     (case rs of
        r0 # r1 # r2 # rest \<Rightarrow>
          Inr (''I can see '' @ food @ ''. Here are three delicious recipes you can make: ''
               @ [CHR 10] @ indent @ [CHR 10] @ indent
               @ ''First, '' @ name r0 @ '' - '' @ description r0 @ ''. This is a ''
               @ toLowerCase (difficulty r0) @ '' recipe that takes about '' @ cookingTime r0 @ ''.''
               @ [CHR 10] @ indent @ [CHR 10] @ indent
               @ ''Second, '' @ name r1 @ '' - '' @ description r1 @ ''. This ''
               @ toLowerCase (difficulty r1) @ '' dish takes '' @ cookingTime r1 @ '' to prepare.''
               @ [CHR 10] @ indent @ [CHR 10] @ indent
               @ ''Finally, '' @ name r2 @ '' - '' @ description r2 @ ''. This ''
               @ toLowerCase (difficulty r2) @ '' recipe can be ready in '' @ cookingTime r2 @ ''.''
               @ [CHR 10] @ indent @ [CHR 10] @ indent
               @ ''Choose any recipe button below to see the full instructions!'')
      | _ \<Rightarrow> Inl TypeError)"

text \<open>\<open>generateVoiceDescription\<close> after its \<open>fetch\<close> has settled.\<close>

definition speechResult :: "fetch_outcome \<Rightarrow> js_error + blob" where
  "speechResult outcome =
     (case outcome of
        Rejected e \<Rightarrow> Inl e
      | Resolved response \<Rightarrow>
          if \<not> ok response
          then (case errorMessageOr (body response) ''Unknown error'' of
                  Inl e \<Rightarrow> Inl e
                | Inr message \<Rightarrow>
                    Inl (Error (''TTS API error: '' @ string_of_nat (status response) @ '' - ''
                                @ message)))
          else Inr (Blob (body response)))"

definition generateVoiceDescription ::
    "state \<Rightarrow> string \<Rightarrow> recipe list \<Rightarrow> fetch_outcome \<Rightarrow> (js_error + blob) \<times> state" where
  "generateVoiceDescription st food rs outcome =
     (let (configured, st1) = isConfigured st
      in if \<not> configured then (Inl (Error ''API key not configured''), st1)
         else
           case description_text food rs of
             Inl e \<Rightarrow> (Inl e, st1)
           | Inr d \<Rightarrow>
               let (key, st2) = getApiKey st1;
                   st3 = st2\<lparr>trace := trace st2 @
                            [Fetch (baseUrl @ ''/audio/speech'') key (SpeechRequest d)]\<rparr>
               in (speechResult outcome, st3))"

definition testResult :: "fetch_outcome \<Rightarrow> js_error + bool" where
  "testResult outcome =
     (case outcome of
        Rejected e \<Rightarrow> Inl e
      | Resolved response \<Rightarrow>
          if \<not> ok response
          then (case errorMessageOr (body response) ''Invalid API key'' of
                  Inl e \<Rightarrow> Inl e
                | Inr message \<Rightarrow>
                    Inl (Error (''API test failed: '' @ string_of_nat (status response) @ '' - ''
                                @ message)))
          else Inr True)"

definition testConnection :: "state \<Rightarrow> fetch_outcome \<Rightarrow> (js_error + bool) \<times> state" where
  "testConnection st outcome =
     (let (configured, st1) = isConfigured st
      in if \<not> configured then (Inl (Error ''API key not configured''), st1)
         else
           let (key, st2) = getApiKey st1;
               st3 = st2\<lparr>trace := trace st2 @
                        [Fetch (baseUrl @ ''/chat/completions'') key TestRequest]\<rparr>
           in (testResult outcome, st3))"

section \<open>CameraManager\<close>

definition videoWidth :: "state \<Rightarrow> nat" where
  "videoWidth st = (case stream st of None \<Rightarrow> 0 | Some s \<Rightarrow> width s)"

definition videoHeight :: "state \<Rightarrow> nat" where
  "videoHeight st = (case stream st of None \<Rightarrow> 0 | Some s \<Rightarrow> height s)"

text \<open>
  \<open>initialize\<close>, given what \<open>getUserMedia\<close> answers.  The request asks for the rear camera
  as an ideal.  The wait for \<open>loadedmetadata\<close> is taken to end.  \<open>handleCameraError\<close> puts
  an error box in the page; the model keeps the error it was made from.
\<close>

definition initialize :: "state \<Rightarrow> media_outcome \<Rightarrow> bool \<times> state" where
  "initialize st outcome =
     (let st1 = st\<lparr>trace := trace st @ [GetUserMedia (Ideal ''environment'')]\<rparr>
      in case outcome of
           Granted s \<Rightarrow> (True, st1\<lparr>stream := Some s, isInitialized := True\<rparr>)
         | Denied e \<Rightarrow> (False, st1\<lparr>cameraError := Some e\<rparr>))"

text \<open>
  JavaScript numbers, as far as \<open>captureImage\<close> needs them: the finite IEEE 754 binary64
  values (each one a rational), \<open>Infinity\<close> and \<open>NaN\<close>.  Only operands that are not negative
  occur, so the sign of zero and of infinity is left out.
\<close>

datatype number = Finite rat | Infinity | NaN

text \<open>The integer part of the binary logarithm of a positive natural number.\<close>

fun log2_nat :: "nat \<Rightarrow> nat" where
  "log2_nat n = (if n < 2 then 0 else Suc (log2_nat (n div 2)))"

declare log2_nat.simps [simp del]

text \<open>The binary exponent \<open>e\<close> of a positive rational \<open>x\<close>: \<open>2 ^ e \<le> x < 2 ^ (e + 1)\<close>.\<close>

definition exponent :: "rat \<Rightarrow> int" where
  "exponent x =
     (if 1 \<le> x then int (log2_nat (nat \<lfloor>x\<rfloor>))
      else - int (Suc (log2_nat (nat \<lceil>1 / x\<rceil> - 1))))"

definition pow2 :: "int \<Rightarrow> rat" where
  "pow2 k = (if 0 \<le> k then 2 ^ nat k else 1 / 2 ^ nat (- k))"

definition roundTiesToEven :: "rat \<Rightarrow> int" where
  "roundTiesToEven q =
     (let f = \<lfloor>q\<rfloor>;
          d = q - of_int f
      in if d < 1 / 2 then f
         else if 1 / 2 < d then f + 1
         else if even f then f else f + 1)"

text \<open>
  The binary64 value of an exact result that is not negative: the nearest multiple of the
  unit in the last place (53 significant bits, exponents from \<open>-1022\<close>), ties to the even
  one, and \<open>Infinity\<close> from \<open>2 ^ 1024\<close> on.
\<close>

definition round_double :: "rat \<Rightarrow> number" where
  "round_double x =
     (if x = 0 then Finite 0
      else
        let ulp = pow2 (max (exponent x) (- 1022) - 52);
            r = of_int (roundTiesToEven (x / ulp)) * ulp
        in if pow2 1024 \<le> r then Infinity else Finite r)"

text \<open>The operators \<open>/\<close> and \<open>*\<close> on numbers that are not negative.\<close>

fun divide_js :: "number \<Rightarrow> number \<Rightarrow> number" where
  "divide_js (Finite a) (Finite b) =
     (if b = 0 then (if a = 0 then NaN else Infinity) else round_double (a / b))"
| "divide_js (Finite a) Infinity = Finite 0"
| "divide_js Infinity (Finite b) = Infinity"
| "divide_js a b = NaN"

fun times_js :: "number \<Rightarrow> number \<Rightarrow> number" where
  "times_js (Finite a) (Finite b) = round_double (a * b)"
| "times_js (Finite a) Infinity = (if a = 0 then NaN else Infinity)"
| "times_js Infinity (Finite b) = (if b = 0 then NaN else Infinity)"
| "times_js Infinity Infinity = Infinity"
| "times_js a b = NaN"

text \<open>
  The conversion of a number that is not negative to the \<open>unsigned long\<close> of
  \<open>canvas.width\<close> and \<open>canvas.height\<close>: \<open>NaN\<close> and \<open>Infinity\<close> become 0, any other number its
  integer part modulo \<open>2 ^ 32\<close>.  The canvas replaces a size above \<open>2 ^ 31 - 1\<close> by its
  default; \<open>captureImage\<close> assigns no size above 1024, so this is left out.
\<close>

fun toUnsignedLong :: "number \<Rightarrow> nat" where
  "toUnsignedLong (Finite x) = nat \<lfloor>x\<rfloor> mod 2 ^ 32"
| "toUnsignedLong n = 0"

text \<open>
  \<open>captureImage\<close>.  \<open>video.videoWidth\<close> and \<open>video.videoHeight\<close> are integers, so the
  comparisons are exact; the division and the multiplication are those of binary64
  numbers.  The image is the canvas as \<open>toDataURL('image/jpeg', 0.7)\<close> encodes it, kept
  as the size the canvas took and the quality factor.  An exception of the canvas is
  caught: the method logs it and returns \<open>null\<close>.
\<close>

definition captureImage :: "state \<Rightarrow> capturedImage option \<times> state" where
  "captureImage st =
     (if \<not> isInitialized st then (None, st)
      else
        let maxWidth = 1024;
            maxHeight = 768;
            width = videoWidth st;
            height = videoHeight st;
            (width', height') =
              (if width > maxWidth \<or> height > maxHeight
               then let aspectRatio = divide_js (Finite (of_nat width)) (Finite (of_nat height))
                    in if width > height
                       then (Finite (of_nat maxWidth), divide_js (Finite (of_nat maxWidth)) aspectRatio)
                       else (times_js (Finite (of_nat maxHeight)) aspectRatio, Finite (of_nat maxHeight))
               else (Finite (of_nat width), Finite (of_nat height)));
            imageData = \<lparr>canvas_width = toUnsignedLong width',
                         canvas_height = toUnsignedLong height', quality = 7 / 10\<rparr>
        in case canvasError st of
             Some e \<Rightarrow> (None, st)
           | None \<Rightarrow> (Some imageData, st\<lparr>trace := trace st @ [Capture imageData]\<rparr>))"

definition pauseStream :: "state \<Rightarrow> state" where
  "pauseStream st =
     (case stream st of None \<Rightarrow> st | Some s \<Rightarrow> st\<lparr>stream := Some (s\<lparr>enabled := False\<rparr>)\<rparr>)"

definition resumeStream :: "state \<Rightarrow> state" where
  "resumeStream st =
     (case stream st of None \<Rightarrow> st | Some s \<Rightarrow> st\<lparr>stream := Some (s\<lparr>enabled := True\<rparr>)\<rparr>)"

text \<open>
  \<open>switchCamera\<close>, given the answer to its own request (\<open>exact\<close> opposite facing mode) and
  the answer to the request of the \<open>initialize()\<close> in its \<open>catch\<close>.  With no stream object,
  \<open>this.stream.getTracks()\<close> throws inside the \<open>try\<close> and the \<open>catch\<close> runs at once.
\<close>

definition switchCamera :: "state \<Rightarrow> media_outcome \<Rightarrow> media_outcome \<Rightarrow> bool \<times> state" where
  "switchCamera st switched fallback =
     (if \<not> isInitialized st then (False, st)
      else
        case stream st of
          None \<Rightarrow> (False, snd (initialize st fallback))
        | Some s \<Rightarrow>
            let st1 = st\<lparr>stream := Some (s\<lparr>live := False\<rparr>)\<rparr>;
                currentFacingMode = facingMode s;
                newFacingMode =
                  (if currentFacingMode = Some ''environment'' then ''user'' else ''environment'');
                st2 = st1\<lparr>trace := trace st1 @ [GetUserMedia (Exact newFacingMode)]\<rparr>
            in case switched of
                 Granted s' \<Rightarrow> (True, st2\<lparr>stream := Some s'\<rparr>)
               | Denied e \<Rightarrow> (False, snd (initialize st2 fallback)))"

section \<open>FoodAnalyzerApp\<close>

definition showLoading :: "state \<Rightarrow> state" where
  "showLoading st = st\<lparr>loadingHidden := False, resultsHidden := True, analyzeBtnDisabled := True\<rparr>"

definition hideLoading :: "state \<Rightarrow> state" where
  "hideLoading st = resumeStream (st\<lparr>loadingHidden := True, analyzeBtnDisabled := False\<rparr>)"

text \<open>
  \<open>showError\<close>: the banner text is the given prefix, followed by the message of the given
  error when there is one.
\<close>

definition showError :: "string \<Rightarrow> js_error option \<Rightarrow> state \<Rightarrow> state" where
  "showError prefix e st = st\<lparr>errorMessage := Some (prefix, e)\<rparr>"

text \<open>The callback of \<open>recipeButtons.forEach\<close> in \<open>showResults\<close>.\<close>

definition labelButton :: "recipe list \<Rightarrow> nat \<times> button \<Rightarrow> button" where
  "labelButton rs ib =
     (if fst ib < length rs
      then (snd ib)\<lparr>textContent := name (rs ! fst ib), disabled := False\<rparr>
      else (snd ib)\<lparr>hidden := True\<rparr>)"

definition showResults :: "state \<Rightarrow> analysis \<Rightarrow> blob option \<Rightarrow> state" where
  "showResults st a audioBlob =
     (let st1 = hideLoading st;
          st2 = st1\<lparr>foodDetectedEl := foodDetected a\<rparr>;
          st3 = (case audioBlob of
                   Some b \<Rightarrow> st2\<lparr>audioPlayer_src := Some b, audioPlayer_shown := True\<rparr>
                 | None \<Rightarrow> st2\<lparr>audioPlayer_shown := False\<rparr>);
          st4 = st3\<lparr>recipeButtons :=
                      map (labelButton (recipes a)) (enumerate 0 (recipeButtons st3))\<rparr>
      in st4\<lparr>resultsHidden := False\<rparr>)"

text \<open>What the environment answers during one analysis.\<close>

record cycle =
  vision :: fetch_outcome
  speech :: fetch_outcome
  clk :: clock

text \<open>
  \<open>FoodAnalyzerApp.analyzeFood\<close>, the handler of the analyze button.  \<open>tried\<close> is the
  \<open>try\<close> block: \<open>Inl\<close> when an exception leaves it, with the state the failing call left
  behind, in which the \<open>catch\<close> block then runs; the last update is the \<open>finally\<close> block.
  The speech call has its own \<open>try/catch\<close>, which only logs.
\<close>

definition App_analyzeFood :: "state \<Rightarrow> cycle \<Rightarrow> state" where
  "App_analyzeFood st env =
     (if isAnalyzing st then st
      else
        let st1 = showLoading (st\<lparr>isAnalyzing := True\<rparr>);
            st2 = pauseStream st1;
            (imageData, st3) = captureImage st2;
            tried =
              (case imageData of
                 None \<Rightarrow> Inl (Error ''Failed to capture image from camera'', st3)
               | Some img \<Rightarrow>
                   let (r, st4) = analyzeFood st3 (Captured img) (vision env)
                   in case r of
                        Inl e \<Rightarrow> Inl (e, st4)
                      | Inr analysis \<Rightarrow>
                          let (v, st5) = generateVoiceDescription st4 (foodDetected analysis)
                                           (recipes analysis) (speech env);
                              audioBlob = (case v of Inl audioError \<Rightarrow> None | Inr b \<Rightarrow> Some b);
                              st6 = st5\<lparr>localStorage :=
                                          saveToHistory (localStorage st5) (clk env) analysis\<rparr>
                          in Inr (showResults st6 analysis audioBlob));
            caught =
              (case tried of
                 Inl (error, st') \<Rightarrow>
                   resumeStream (hideLoading (showError ''Analysis failed: '' (Some error) st'))
               | Inr st' \<Rightarrow> st')
        in caught\<lparr>isAnalyzing := False\<rparr>)"

text \<open>
  \<open>handleFileUpload\<close>, the handler of the upload control, given \<open>event.target.files[0]\<close>.
  It does not read \<open>isAnalyzing\<close>.
\<close>

definition handleFileUpload :: "state \<Rightarrow> File option \<Rightarrow> cycle \<Rightarrow> state" where
  "handleFileUpload st files0 env =
     (case files0 of
        None \<Rightarrow> st
      | Some f \<Rightarrow>
          if take 6 (type_file f) \<noteq> ''image/''
          then showError ''Please select a valid image file'' None st
          else if size_file f > 10 * 1024 * 1024
          then showError ''Image is too large. Please select an image under 10MB'' None st
          else
            let st1 = showLoading (st\<lparr>isAnalyzing := True\<rparr>);
                st2 = st1\<lparr>trace := trace st1 @ [ReadFile]\<rparr>;
                tried =
                  (case readAsDataURL f of
                     Inl e \<Rightarrow> Inl (e, st2)
                   | Inr imageData \<Rightarrow>
                       let (r, st3) = analyzeFood st2 (DataURL imageData) (vision env)
                       in case r of
                            Inl e \<Rightarrow> Inl (e, st3)
                          | Inr analysis \<Rightarrow>
                              let (v, st4) = generateVoiceDescription st3 (foodDetected analysis)
                                               (recipes analysis) (speech env);
                                  audioBlob =
                                    (case v of Inl audioError \<Rightarrow> None | Inr b \<Rightarrow> Some b);
                                  st5 = st4\<lparr>localStorage :=
                                              saveToHistory (localStorage st4) (clk env) analysis\<rparr>
                              in Inr (showResults st5 analysis audioBlob));
                caught =
                  (case tried of
                     Inl (error, st') \<Rightarrow>
                       hideLoading (showError ''Analysis failed: '' (Some error) st')
                   | Inr st' \<Rightarrow> st')
            in caught\<lparr>isAnalyzing := False, fileUpload_value := []\<rparr>)"

section \<open>Properties of the history store\<close>

lemma mode_saveToHistory: "mode (saveToHistory ls c a) = mode ls"
  by (simp add: saveToHistory_def setItem_def Let_def split: storage_mode.splits)

lemma getHistory_saveToHistory:
  "mode ls = Working \<Longrightarrow>
   getHistory (saveToHistory ls c a) = take 10 (historyItem c a # getHistory ls)"
  by (simp add: saveToHistory_def setItem_def getHistory_def getItem_def JSON_stringify_def Let_def)

lemma take_append_take: "take n (xs @ take n ys) = take n (xs @ ys)"
  by (simp add: min_def)

lemma getHistory_saveAll:
  "mode ls = Working \<Longrightarrow> xs \<noteq> [] \<Longrightarrow>
   getHistory (saveAll ls xs) =
     take 10 (rev (map (\<lambda>ca. historyItem (fst ca) (snd ca)) xs) @ getHistory ls)"
proof (induction xs arbitrary: ls)
  case Nil
  then show ?case by simp
next
  case (Cons ca rest)
  let ?ls = "saveToHistory ls (fst ca) (snd ca)"
  have m: "mode ?ls = Working" using Cons.prems(1) by (simp add: mode_saveToHistory)
  show ?case
  proof (cases "rest = []")
    case True
    then show ?thesis using Cons.prems(1) by (simp add: getHistory_saveToHistory)
  next
    case False
    from Cons.IH [OF m False]
    have "getHistory (saveAll ?ls rest) =
            take 10 (rev (map (\<lambda>ca. historyItem (fst ca) (snd ca)) rest)
                     @ take 10 (historyItem (fst ca) (snd ca) # getHistory ls))"
      using Cons.prems(1) by (simp add: getHistory_saveToHistory)
    then show ?thesis by (simp only: take_append_take saveAll.simps list.map rev.simps append_assoc append_Cons append_Nil)
  qed
qed

text \<open>
  Claim C3.  While \<open>localStorage\<close> accepts writes, the persisted history after a non-empty
  sequence of appends is the first ten entries of the appended items, newest first, followed
  by what was stored before; it never holds more than ten entries, and after eleven appends
  it holds exactly the ten newest, the first one appended being the one dropped.
\<close>

theorem history_keeps_ten_most_recent:
  assumes "mode ls = Working"
  shows "(xs \<noteq> [] \<longrightarrow>
            getHistory (saveAll ls xs) =
              take 10 (rev (map (\<lambda>ca. historyItem (fst ca) (snd ca)) xs) @ getHistory ls))
       \<and> (xs \<noteq> [] \<or> length (getHistory ls) \<le> 10 \<longrightarrow> length (getHistory (saveAll ls xs)) \<le> 10)
       \<and> (length xs = 11 \<longrightarrow>
            getHistory (saveAll ls xs) =
              rev (map (\<lambda>ca. historyItem (fst ca) (snd ca)) (tl xs)))"
proof (intro conjI impI)
  assume "xs \<noteq> []"
  then show "getHistory (saveAll ls xs) =
              take 10 (rev (map (\<lambda>ca. historyItem (fst ca) (snd ca)) xs) @ getHistory ls)"
    using assms by (rule getHistory_saveAll [rotated])
next
  assume "xs \<noteq> [] \<or> length (getHistory ls) \<le> 10"
  then show "length (getHistory (saveAll ls xs)) \<le> 10"
    using assms by (cases "xs = []") (simp_all add: getHistory_saveAll)
next
  assume l: "length xs = 11"
  then have ne: "xs \<noteq> []" by auto
  obtain x rest where xs: "xs = x # rest" using ne by (cases xs) auto
  with l have lr: "length rest = 10" by simp
  show "getHistory (saveAll ls xs) = rev (map (\<lambda>ca. historyItem (fst ca) (snd ca)) (tl xs))"
    using getHistory_saveAll [OF assms ne] lr by (simp add: xs)
qed

theorem history_keeps_ten_most_recent_witness:
  "mode \<lparr>items = Map.empty, mode = Working\<rparr> = Working
   \<and> map id_item (getHistory (saveAll \<lparr>items = Map.empty, mode = Working\<rparr>
        [(\<lparr>now = 1, toISOString = ''t1''\<rparr>, \<lparr>foodDetected = ''apple'', recipes = []\<rparr>),
         (\<lparr>now = 2, toISOString = ''t2''\<rparr>, \<lparr>foodDetected = ''bread'', recipes = []\<rparr>),
         (\<lparr>now = 3, toISOString = ''t3''\<rparr>, \<lparr>foodDetected = ''carrot'', recipes = []\<rparr>),
         (\<lparr>now = 4, toISOString = ''t4''\<rparr>, \<lparr>foodDetected = ''dates'', recipes = []\<rparr>),
         (\<lparr>now = 5, toISOString = ''t5''\<rparr>, \<lparr>foodDetected = ''egg'', recipes = []\<rparr>),
         (\<lparr>now = 6, toISOString = ''t6''\<rparr>, \<lparr>foodDetected = ''fig'', recipes = []\<rparr>),
         (\<lparr>now = 7, toISOString = ''t7''\<rparr>, \<lparr>foodDetected = ''grape'', recipes = []\<rparr>),
         (\<lparr>now = 8, toISOString = ''t8''\<rparr>, \<lparr>foodDetected = ''ham'', recipes = []\<rparr>),
         (\<lparr>now = 9, toISOString = ''t9''\<rparr>, \<lparr>foodDetected = ''kale'', recipes = []\<rparr>),
         (\<lparr>now = 10, toISOString = ''t10''\<rparr>, \<lparr>foodDetected = ''leek'', recipes = []\<rparr>),
         (\<lparr>now = 11, toISOString = ''t11''\<rparr>, \<lparr>foodDetected = ''melon'', recipes = []\<rparr>)]))
      = [11, 10, 9, 8, 7, 6, 5, 4, 3, 2]"
  using history_keeps_ten_most_recent
    [of "\<lparr>items = Map.empty, mode = Working\<rparr>"
        "[(\<lparr>now = 1, toISOString = ''t1''\<rparr>, \<lparr>foodDetected = ''apple'', recipes = []\<rparr>),
         (\<lparr>now = 2, toISOString = ''t2''\<rparr>, \<lparr>foodDetected = ''bread'', recipes = []\<rparr>),
         (\<lparr>now = 3, toISOString = ''t3''\<rparr>, \<lparr>foodDetected = ''carrot'', recipes = []\<rparr>),
         (\<lparr>now = 4, toISOString = ''t4''\<rparr>, \<lparr>foodDetected = ''dates'', recipes = []\<rparr>),
         (\<lparr>now = 5, toISOString = ''t5''\<rparr>, \<lparr>foodDetected = ''egg'', recipes = []\<rparr>),
         (\<lparr>now = 6, toISOString = ''t6''\<rparr>, \<lparr>foodDetected = ''fig'', recipes = []\<rparr>),
         (\<lparr>now = 7, toISOString = ''t7''\<rparr>, \<lparr>foodDetected = ''grape'', recipes = []\<rparr>),
         (\<lparr>now = 8, toISOString = ''t8''\<rparr>, \<lparr>foodDetected = ''ham'', recipes = []\<rparr>),
         (\<lparr>now = 9, toISOString = ''t9''\<rparr>, \<lparr>foodDetected = ''kale'', recipes = []\<rparr>),
         (\<lparr>now = 10, toISOString = ''t10''\<rparr>, \<lparr>foodDetected = ''leek'', recipes = []\<rparr>),
         (\<lparr>now = 11, toISOString = ''t11''\<rparr>, \<lparr>foodDetected = ''melon'', recipes = []\<rparr>)]"]
  by (simp add: historyItem_def)

section \<open>Properties of the API client\<close>

lemma getApiKey_snd: "snd (getApiKey st) = st\<lparr>apiKey := fst (getApiKey st)\<rparr>"
  by (simp add: getApiKey_def split: sum.splits)

lemma getApiKey_cached: "\<not> falsy (apiKey st) \<Longrightarrow> getApiKey st = (apiKey st, st)"
  by (simp add: getApiKey_def)

lemma isConfigured_snd: "snd (isConfigured st) = st\<lparr>apiKey := fst (getApiKey st)\<rparr>"
  by (simp add: isConfigured_def case_prod_beta getApiKey_snd [of st])

lemma isConfigured_fst:
  "fst (isConfigured st) =
     (case fst (getApiKey st) of None \<Rightarrow> False | Some k \<Rightarrow> truthy k \<and> truthy (trim_js k))"
  by (simp add: isConfigured_def split: prod.splits)

lemma isConfigured_key: "fst (isConfigured st) \<Longrightarrow> \<not> falsy (fst (getApiKey st))"
  by (auto simp: isConfigured_fst split: option.splits)

lemma getApiKey_after_isConfigured:
  "fst (isConfigured st) \<Longrightarrow>
   getApiKey (st\<lparr>apiKey := fst (getApiKey st)\<rparr>) =
     (fst (getApiKey st), st\<lparr>apiKey := fst (getApiKey st)\<rparr>)"
  using isConfigured_key [of st] getApiKey_cached [of "st\<lparr>apiKey := fst (getApiKey st)\<rparr>"]
  by simp

lemma analyzeFood_not_configured:
  "\<not> fst (isConfigured st) \<Longrightarrow>
   analyzeFood st img outcome =
     (Inl (Error ''API key not configured''), st\<lparr>apiKey := fst (getApiKey st)\<rparr>)"
  by (simp add: analyzeFood_def case_prod_beta isConfigured_snd)

lemma analyzeFood_configured:
  "fst (isConfigured st) \<Longrightarrow>
   analyzeFood st img outcome =
     (case visionResult outcome of
        Inl e \<Rightarrow>
          (Inl e, st\<lparr>apiKey := fst (getApiKey st),
                     trace := trace st @ [Fetch (baseUrl @ ''/chat/completions'')
                                            (fst (getApiKey st)) (VisionRequest img)]\<rparr>)
      | Inr a \<Rightarrow>
          (Inr a, st\<lparr>apiKey := fst (getApiKey st),
                     trace := trace st @ [Fetch (baseUrl @ ''/chat/completions'')
                                            (fst (getApiKey st)) (VisionRequest img)],
                     this_recipes := recipes a\<rparr>))"
  by (simp add: getApiKey_after_isConfigured analyzeFood_def case_prod_beta Let_def isConfigured_snd split: sum.splits)


lemma generateVoiceDescription_configured:
  "fst (isConfigured st) \<Longrightarrow>
   generateVoiceDescription st food rs outcome =
     (case description_text food rs of
        Inl e \<Rightarrow> (Inl e, st\<lparr>apiKey := fst (getApiKey st)\<rparr>)
      | Inr d \<Rightarrow>
          (speechResult outcome,
           st\<lparr>apiKey := fst (getApiKey st),
              trace := trace st @ [Fetch (baseUrl @ ''/audio/speech'')
                                     (fst (getApiKey st)) (SpeechRequest d)]\<rparr>))"
  by (simp add: getApiKey_after_isConfigured generateVoiceDescription_def case_prod_beta Let_def isConfigured_snd split: sum.splits)

lemma testConnection_configured:
  "fst (isConfigured st) \<Longrightarrow>
   testConnection st outcome =
     (testResult outcome,
      st\<lparr>apiKey := fst (getApiKey st),
         trace := trace st @ [Fetch (baseUrl @ ''/chat/completions'')
                                (fst (getApiKey st)) TestRequest]\<rparr>)"
  by (simp add: getApiKey_after_isConfigured testConnection_def case_prod_beta Let_def isConfigured_snd)



text \<open>
  Claim C7.  When no credential is configured, \<open>analyzeFood\<close> fails with the error
  \<open>API key not configured\<close> and the trace of effects is unchanged: no network request was
  made.
\<close>

theorem analyzeFood_unauthenticated:
  assumes "\<not> fst (isConfigured st)"
  shows "fst (analyzeFood st img outcome) = Inl (Error ''API key not configured'')
       \<and> trace (snd (analyzeFood st img outcome)) = trace st"
  using assms by (simp add: analyzeFood_not_configured)

theorem analyzeFood_unauthenticated_witness:
  "\<not> fst (isConfigured (constructor [] \<lparr>items = Map.empty, mode = Working\<rparr>
                                        \<lparr>items = Map.empty, mode = Working\<rparr>))
   \<and> analyzeFood (constructor [] \<lparr>items = Map.empty, mode = Working\<rparr>
                                 \<lparr>items = Map.empty, mode = Working\<rparr>)
        (DataURL ''data:image/png;base64,AAAA'')
        (Resolved \<lparr>status = 200, body = OtherJson\<rparr>)
      = (Inl (Error ''API key not configured''),
         constructor [] \<lparr>items = Map.empty, mode = Working\<rparr>
                        \<lparr>items = Map.empty, mode = Working\<rparr>)"
  using analyzeFood_unauthenticated
    [of "constructor [] \<lparr>items = Map.empty, mode = Working\<rparr>
                        \<lparr>items = Map.empty, mode = Working\<rparr>"
        "DataURL ''data:image/png;base64,AAAA''"
        "Resolved \<lparr>status = 200, body = OtherJson\<rparr>"]
  by (simp add: analyzeFood_def isConfigured_def getApiKey_def getItem_def constructor_def)

text \<open>
  With a credential configured, \<open>testConnection\<close> on an HTTP response returns \<open>true\<close>
  exactly when the status is in 200..299.  For any other status it fails: with an error
  whose message carries the status code in decimal when the body is anything but the JSON
  value \<open>null\<close>, and with the \<open>TypeError\<close> of \<open>errorData.error\<close> when the body is \<open>null\<close>.
\<close>

lemma testConnection_status:
  assumes "fst (isConfigured st)"
  shows "(fst (testConnection st (Resolved r)) = Inr True
            \<longleftrightarrow> 200 \<le> status r \<and> status r \<le> 299)
       \<and> (\<not> (200 \<le> status r \<and> status r \<le> 299) \<longrightarrow>
            (\<exists>e. fst (testConnection st (Resolved r)) = Inl e)
            \<and> (body r \<noteq> NullJson \<longrightarrow>
                 (\<exists>message. errorMessageOr (body r) ''Invalid API key'' = Inr message
                    \<and> fst (testConnection st (Resolved r)) =
                        Inl (Error (''API test failed: '' @ string_of_nat (status r) @ '' - ''
                                    @ message))))
            \<and> (body r = NullJson \<longrightarrow>
                 fst (testConnection st (Resolved r)) = Inl TypeError))"
  using assms
  by (cases "body r") (simp_all add: testConnection_configured testResult_def ok_def)

text \<open>
  Claim C8 at a response of status 401 whose body is the JSON text \<open>null\<close>: \<open>testConnection\<close>
  fails with a \<open>TypeError\<close>, which carries no status code.  With a body that is a JSON
  object without an error message, or that is not JSON at all, the failure is the error
  \<open>API test failed: 401 - Invalid API key\<close>.
\<close>

theorem testConnection_null_body_loses_status:
  "fst (testConnection ((constructor [] \<lparr>items = Map.empty, mode = Working\<rparr>
                                          \<lparr>items = Map.empty, mode = Working\<rparr>)
                            \<lparr>apiKey := Some (Raw ''gsk_test'')\<rparr>)
           (Resolved \<lparr>status = 401, body = NullJson\<rparr>))
     = Inl TypeError
   \<and> fst (testConnection ((constructor [] \<lparr>items = Map.empty, mode = Working\<rparr>
                                            \<lparr>items = Map.empty, mode = Working\<rparr>)
                              \<lparr>apiKey := Some (Raw ''gsk_test'')\<rparr>)
             (Resolved \<lparr>status = 401, body = OtherJson\<rparr>))
       = Inl (Error ''API test failed: 401 - Invalid API key'')
   \<and> fst (testConnection ((constructor [] \<lparr>items = Map.empty, mode = Working\<rparr>
                                            \<lparr>items = Map.empty, mode = Working\<rparr>)
                              \<lparr>apiKey := Some (Raw ''gsk_test'')\<rparr>)
             (Resolved \<lparr>status = 401, body = NotJson\<rparr>))
       = Inl (Error ''API test failed: 401 - Invalid API key'')"
  by (simp add: testConnection_def testResult_def ok_def isConfigured_def getApiKey_def
        constructor_def trim_def isWhiteSpace_def string_of_nat.simps Let_def)

text \<open>
  Claim C1, as the code has it.  On a successful response with a configured credential
  whose body has a content: when the content is not valid JSON, \<open>analyzeFood\<close> fails with
  the \<open>SyntaxError\<close> of \<open>JSON.parse\<close> and leaves \<open>this.recipes\<close> as it was; when the content
  is the JSON text of an object with the detected food and a list of recipes,
  \<open>analyzeFood\<close> returns that object and stores its recipes, however many there are; when
  the content is the JSON text \<open>null\<close>, \<open>analyzeFood\<close> fails with the \<open>TypeError\<close> of
  \<open>analysisResult.recipes\<close> and leaves \<open>this.recipes\<close> as it was.
\<close>

theorem analyzeFood_parses_without_count_check:
  assumes "fst (isConfigured st)" and "ok r" and "body r = Completion c"
  shows "(\<forall>s. c = Raw s \<longrightarrow>
            fst (analyzeFood st img (Resolved r)) = Inl SyntaxError
            \<and> this_recipes (snd (analyzeFood st img (Resolved r))) = this_recipes st)
       \<and> (\<forall>a. c = Json (Object a) \<longrightarrow>
            fst (analyzeFood st img (Resolved r)) = Inr a
            \<and> this_recipes (snd (analyzeFood st img (Resolved r))) = recipes a)
       \<and> (c = Json Null \<longrightarrow>
            fst (analyzeFood st img (Resolved r)) = Inl TypeError
            \<and> this_recipes (snd (analyzeFood st img (Resolved r))) = this_recipes st)"
  using assms by (simp add: analyzeFood_configured visionResult_def)

theorem analyzeFood_parses_without_count_check_witness:
  "fst (isConfigured ((constructor [] \<lparr>items = Map.empty, mode = Working\<rparr>
                                      \<lparr>items = Map.empty, mode = Working\<rparr>)
                        \<lparr>apiKey := Some (Raw ''gsk_test'')\<rparr>))
   \<and> ok \<lparr>status = 200, body = Completion (Raw ''I see a tomato.'')\<rparr>
   \<and> fst (analyzeFood ((constructor [] \<lparr>items = Map.empty, mode = Working\<rparr>
                                         \<lparr>items = Map.empty, mode = Working\<rparr>)
                           \<lparr>apiKey := Some (Raw ''gsk_test'')\<rparr>)
            (DataURL ''data:image/jpeg;base64,AAAA'')
            (Resolved \<lparr>status = 200, body = Completion (Raw ''I see a tomato.'')\<rparr>))
       = Inl SyntaxError
   \<and> fst (analyzeFood ((constructor [] \<lparr>items = Map.empty, mode = Working\<rparr>
                                         \<lparr>items = Map.empty, mode = Working\<rparr>)
                           \<lparr>apiKey := Some (Raw ''gsk_test'')\<rparr>)
            (DataURL ''data:image/jpeg;base64,AAAA'')
            (Resolved \<lparr>status = 200,
                       body = Completion (Json (Object \<lparr>foodDetected = ''tomato'', recipes = []\<rparr>))\<rparr>))
       = Inr \<lparr>foodDetected = ''tomato'', recipes = []\<rparr>
   \<and> fst (analyzeFood ((constructor [] \<lparr>items = Map.empty, mode = Working\<rparr>
                                         \<lparr>items = Map.empty, mode = Working\<rparr>)
                           \<lparr>apiKey := Some (Raw ''gsk_test'')\<rparr>)
            (DataURL ''data:image/jpeg;base64,AAAA'')
            (Resolved \<lparr>status = 200, body = Completion (Json Null)\<rparr>))
       = Inl TypeError"
  using analyzeFood_parses_without_count_check
    [of "(constructor [] \<lparr>items = Map.empty, mode = Working\<rparr>
                         \<lparr>items = Map.empty, mode = Working\<rparr>)
           \<lparr>apiKey := Some (Raw ''gsk_test'')\<rparr>"
        "\<lparr>status = 200, body = Completion (Raw ''I see a tomato.'')\<rparr>"
        "Raw ''I see a tomato.''" "DataURL ''data:image/jpeg;base64,AAAA''"]
    analyzeFood_parses_without_count_check
    [of "(constructor [] \<lparr>items = Map.empty, mode = Working\<rparr>
                         \<lparr>items = Map.empty, mode = Working\<rparr>)
           \<lparr>apiKey := Some (Raw ''gsk_test'')\<rparr>"
        "\<lparr>status = 200,
          body = Completion (Json (Object \<lparr>foodDetected = ''tomato'', recipes = []\<rparr>))\<rparr>"
        "Json (Object \<lparr>foodDetected = ''tomato'', recipes = []\<rparr>)"
        "DataURL ''data:image/jpeg;base64,AAAA''"]
    analyzeFood_parses_without_count_check
    [of "(constructor [] \<lparr>items = Map.empty, mode = Working\<rparr>
                         \<lparr>items = Map.empty, mode = Working\<rparr>)
           \<lparr>apiKey := Some (Raw ''gsk_test'')\<rparr>"
        "\<lparr>status = 200, body = Completion (Json Null)\<rparr>"
        "Json Null" "DataURL ''data:image/jpeg;base64,AAAA''"]
  by (simp add: isConfigured_def getApiKey_def constructor_def trim_def isWhiteSpace_def ok_def)

text \<open>
  A response whose content holds two recipes is returned, not refused.
\<close>

theorem analyzeFood_accepts_two_recipes:
  "fst (analyzeFood
          ((constructor [] \<lparr>items = Map.empty, mode = Working\<rparr>
                           \<lparr>items = Map.empty, mode = Working\<rparr>)
             \<lparr>apiKey := Some (Raw ''gsk_test'')\<rparr>)
          (DataURL ''data:image/jpeg;base64,AAAA'')
          (Resolved \<lparr>status = 200, body = Completion (Json (Object
             \<lparr>foodDetected = ''tomato and bread'',
              recipes =
                [\<lparr>name = ''Bruschetta'', description = ''Toasted bread with tomato'',
                  ingredients = [''bread'', ''tomato''], instructions = [''toast'', ''top''],
                  cookingTime = ''10 minutes'', difficulty = ''Easy''\<rparr>,
                 \<lparr>name = ''Tomato soup'', description = ''Soup with croutons'',
                  ingredients = [''tomato'', ''bread''], instructions = [''simmer'', ''blend''],
                  cookingTime = ''30 minutes'', difficulty = ''Medium''\<rparr>]\<rparr>))\<rparr>))
     = Inr \<lparr>foodDetected = ''tomato and bread'',
            recipes =
              [\<lparr>name = ''Bruschetta'', description = ''Toasted bread with tomato'',
                ingredients = [''bread'', ''tomato''], instructions = [''toast'', ''top''],
                cookingTime = ''10 minutes'', difficulty = ''Easy''\<rparr>,
               \<lparr>name = ''Tomato soup'', description = ''Soup with croutons'',
                ingredients = [''tomato'', ''bread''], instructions = [''simmer'', ''blend''],
                cookingTime = ''30 minutes'', difficulty = ''Medium''\<rparr>]\<rparr>"
  by (simp add: analyzeFood_def isConfigured_def getApiKey_def constructor_def trim_def
        isWhiteSpace_def visionResult_def ok_def)

text \<open>
  Claim C9.  For a list of three recipes the narration is \<open>I can see\<close>, the detected food,
  \<open>. Here are three delicious recipes\<close>, and then for each recipe in order its name,
  description, lower-cased difficulty and cooking time, in the fixed template; this is the
  text \<open>generateVoiceDescription\<close> sends to the speech endpoint.
\<close>

theorem narration_follows_template:
  assumes "length rs = 3"
  shows "description_text food rs =
     Inr (''I can see '' @ food @ ''. Here are three delicious recipes''
          @ '' you can make: '' @ [CHR 10] @ indent @ [CHR 10] @ indent
          @ ''First, '' @ name (rs ! 0) @ '' - '' @ description (rs ! 0) @ ''. This is a ''
          @ toLowerCase (difficulty (rs ! 0)) @ '' recipe that takes about ''
          @ cookingTime (rs ! 0) @ ''.''
          @ [CHR 10] @ indent @ [CHR 10] @ indent
          @ ''Second, '' @ name (rs ! 1) @ '' - '' @ description (rs ! 1) @ ''. This ''
          @ toLowerCase (difficulty (rs ! 1)) @ '' dish takes '' @ cookingTime (rs ! 1)
          @ '' to prepare.''
          @ [CHR 10] @ indent @ [CHR 10] @ indent
          @ ''Finally, '' @ name (rs ! 2) @ '' - '' @ description (rs ! 2) @ ''. This ''
          @ toLowerCase (difficulty (rs ! 2)) @ '' recipe can be ready in ''
          @ cookingTime (rs ! 2) @ ''.''
          @ [CHR 10] @ indent @ [CHR 10] @ indent
          @ ''Choose any recipe button below to see the full instructions!'')
   \<and> (fst (isConfigured st) \<longrightarrow>
        (\<exists>d. description_text food rs = Inr d
           \<and> trace (snd (generateVoiceDescription st food rs outcome)) =
               trace st @ [Fetch (baseUrl @ ''/audio/speech'') (fst (getApiKey st))
                             (SpeechRequest d)]))"
proof -
  from assms obtain r0 r1 r2 where rs: "rs = [r0, r1, r2]"
    by (cases rs; cases "tl rs"; cases "tl (tl rs)") auto
  show ?thesis
    by (simp add: rs description_text_def generateVoiceDescription_configured)
qed

theorem narration_follows_template_witness:
  "fst (isConfigured ((constructor [] \<lparr>items = Map.empty, mode = Working\<rparr>
                                      \<lparr>items = Map.empty, mode = Working\<rparr>)
                        \<lparr>apiKey := Some (Raw ''gsk_test'')\<rparr>))
   \<and> description_text ''tomato and bread''
       [\<lparr>name = ''Bruschetta'', description = ''Toasted bread with tomato'',
         ingredients = [], instructions = [], cookingTime = ''10 minutes'',
         difficulty = ''Easy''\<rparr>,
        \<lparr>name = ''Tomato soup'', description = ''Soup with croutons'',
         ingredients = [], instructions = [], cookingTime = ''30 minutes'',
         difficulty = ''Medium''\<rparr>,
        \<lparr>name = ''Panzanella'', description = ''Bread salad'',
         ingredients = [], instructions = [], cookingTime = ''15 minutes'',
         difficulty = ''HARD''\<rparr>]
     = Inr (''I can see tomato and bread. Here are three delicious recipes you can make: ''
            @ [CHR 10] @ ''            '' @ [CHR 10] @ ''            ''
            @ ''First, Bruschetta - Toasted bread with tomato. ''
            @ ''This is a easy recipe that takes about 10 minutes.''
            @ [CHR 10] @ ''            '' @ [CHR 10] @ ''            ''
            @ ''Second, Tomato soup - Soup with croutons. ''
            @ ''This medium dish takes 30 minutes to prepare.''
            @ [CHR 10] @ ''            '' @ [CHR 10] @ ''            ''
            @ ''Finally, Panzanella - Bread salad. ''
            @ ''This hard recipe can be ready in 15 minutes.''
            @ [CHR 10] @ ''            '' @ [CHR 10] @ ''            ''
            @ ''Choose any recipe button below to see the full instructions!'')"
  using narration_follows_template
    [where food = "''tomato and bread''"
       and rs = "[\<lparr>name = ''Bruschetta'', description = ''Toasted bread with tomato'',
         ingredients = [], instructions = [], cookingTime = ''10 minutes'',
         difficulty = ''Easy''\<rparr>,
        \<lparr>name = ''Tomato soup'', description = ''Soup with croutons'',
         ingredients = [], instructions = [], cookingTime = ''30 minutes'',
         difficulty = ''Medium''\<rparr>,
        \<lparr>name = ''Panzanella'', description = ''Bread salad'',
         ingredients = [], instructions = [], cookingTime = ''15 minutes'',
         difficulty = ''HARD''\<rparr>]"
       and st = "(constructor [] \<lparr>items = Map.empty, mode = Working\<rparr>
                         \<lparr>items = Map.empty, mode = Working\<rparr>)
           \<lparr>apiKey := Some (Raw ''gsk_test'')\<rparr>"
       and outcome = "Rejected (DOMException ''NetworkError'')"]
  by (simp add: indent_def toLowerCase_def isConfigured_def getApiKey_def constructor_def
        trim_def isWhiteSpace_def)

lemma clearApiKey_eq:
  "clearApiKey st =
     (if mode (localStorage st) = Blocked
      then (Inl (DOMException ''SecurityError''), st\<lparr>apiKey := None\<rparr>)
      else (Inr (), st\<lparr>apiKey := None,
                      localStorage := (localStorage st)
                        \<lparr>items := (items (localStorage st))(''groq_api_key'' := None)\<rparr>\<rparr>))"
  by (simp add: clearApiKey_def removeItem_def Let_def)

lemma clearApiKey_fields:
  "apiKey (snd (clearApiKey st)) = None"
  "sessionStorage (snd (clearApiKey st)) = sessionStorage st"
  by (simp_all add: clearApiKey_eq)

lemma setApiKey_session_fallback:
  assumes "mode (localStorage st) = Full" "mode (sessionStorage st) = Working"
  shows "setApiKey st k t =
           st\<lparr>apiKey := Some k,
              sessionStorage := (sessionStorage st)
                \<lparr>items := (items (sessionStorage st))
                     (''groq_api_key'' \<mapsto> k,
                      ''groq_api_key_timestamp'' \<mapsto> Raw (string_of_nat t))\<rparr>\<rparr>"
  using assms by (simp add: setApiKey_def setItem_def)

text \<open>
  Claim C10.  After \<open>clearApiKey\<close> the in-memory key is \<open>null\<close>, \<open>sessionStorage\<close> is what it
  was, and no key can be read from \<open>localStorage\<close>.  So when \<open>setApiKey\<close> had to fall back
  to \<open>sessionStorage\<close> (\<open>localStorage\<close> refusing writes), the key is still there after
  \<open>clearApiKey\<close>, and \<open>getApiKey\<close> and \<open>isConfigured\<close> find it again.
\<close>

theorem clearApiKey_keeps_session_copy:
  "apiKey (snd (clearApiKey st)) = None
   \<and> sessionStorage (snd (clearApiKey st)) = sessionStorage st
   \<and> (\<forall>v. getItem (localStorage (snd (clearApiKey st))) ''groq_api_key'' \<noteq> Inr (Some v))
   \<and> (mode (localStorage st) = Full \<and> mode (sessionStorage st) = Working
        \<and> truthy k \<and> truthy (trim_js k) \<longrightarrow>
        items (sessionStorage (snd (clearApiKey (setApiKey st k t)))) ''groq_api_key'' = Some k
        \<and> fst (getApiKey (snd (clearApiKey (setApiKey st k t)))) = Some k
        \<and> fst (isConfigured (snd (clearApiKey (setApiKey st k t)))))"
proof (intro conjI impI allI)
  show "apiKey (snd (clearApiKey st)) = None" by (rule clearApiKey_fields)
  show "sessionStorage (snd (clearApiKey st)) = sessionStorage st" by (rule clearApiKey_fields)
  show "getItem (localStorage (snd (clearApiKey st))) ''groq_api_key'' \<noteq> Inr (Some v)" for v
    by (simp add: clearApiKey_eq getItem_def)
next
  assume a: "mode (localStorage st) = Full \<and> mode (sessionStorage st) = Working
             \<and> truthy k \<and> truthy (trim_js k)"
  let ?st = "snd (clearApiKey (setApiKey st k t))"
  from a have s: "setApiKey st k t =
           st\<lparr>apiKey := Some k,
              sessionStorage := (sessionStorage st)
                \<lparr>items := (items (sessionStorage st))
                     (''groq_api_key'' \<mapsto> k,
                      ''groq_api_key_timestamp'' \<mapsto> Raw (string_of_nat t))\<rparr>\<rparr>"
    by (simp add: setApiKey_session_fallback)
  show i: "items (sessionStorage ?st) ''groq_api_key'' = Some k"
    by (simp add: s clearApiKey_fields)
  show g: "fst (getApiKey ?st) = Some k"
    using a by (simp add: s clearApiKey_eq getApiKey_def getItem_def)
  show "fst (isConfigured ?st)"
    using a g by (simp add: isConfigured_fst)
qed

theorem clearApiKey_keeps_session_copy_witness:
  "fst (isConfigured (snd (clearApiKey (setApiKey
       (constructor [] \<lparr>items = Map.empty, mode = Full\<rparr> \<lparr>items = Map.empty, mode = Working\<rparr>)
       (Raw ''gsk_old'') 1700000000000))))
   \<and> fst (getApiKey (snd (clearApiKey (setApiKey
       (constructor [] \<lparr>items = Map.empty, mode = Full\<rparr> \<lparr>items = Map.empty, mode = Working\<rparr>)
       (Raw ''gsk_old'') 1700000000000)))) = Some (Raw ''gsk_old'')"
  using clearApiKey_keeps_session_copy
    [of "constructor [] \<lparr>items = Map.empty, mode = Full\<rparr> \<lparr>items = Map.empty, mode = Working\<rparr>"
        "Raw ''gsk_old''" 1700000000000]
  by (simp add: constructor_def trim_def isWhiteSpace_def)

section \<open>Properties of the camera\<close>


lemma captureImage_None:
  "fst (captureImage st) = None \<longleftrightarrow> \<not> isInitialized st \<or> canvasError st \<noteq> None"
  by (simp add: captureImage_def Let_def case_prod_beta split: option.splits)

lemma captureImage_unscaled:
  assumes "fst (captureImage st) = Some img"
    and "videoWidth st \<le> 1024" and "videoHeight st \<le> 768"
  shows "img = \<lparr>canvas_width = videoWidth st, canvas_height = videoHeight st, quality = 7 / 10\<rparr>"
proof -
  have init: "isInitialized st" and canvas: "canvasError st = None"
    using assms(1) captureImage_None [of st] by auto
  show ?thesis
    using assms init canvas by (auto simp: captureImage_def Let_def not_less [symmetric])
qed

lemma captureImage_landscape_width:
  assumes "fst (captureImage st) = Some img"
    and "videoWidth st > videoHeight st"
    and "videoWidth st > 1024 \<or> videoHeight st > 768"
  shows "canvas_width img = 1024 \<and> quality img = 7 / 10"
proof -
  have init: "isInitialized st" and canvas: "canvasError st = None"
    using assms(1) captureImage_None [of st] by auto
  show ?thesis
    using assms init canvas by (auto simp: captureImage_def Let_def)
qed

lemma captureImage_portrait_height:
  assumes "fst (captureImage st) = Some img"
    and "videoWidth st \<le> videoHeight st"
    and "videoWidth st > 1024 \<or> videoHeight st > 768"
  shows "canvas_height img = 768 \<and> quality img = 7 / 10"
proof -
  have init: "isInitialized st" and canvas: "canvasError st = None"
    using assms(1) captureImage_None [of st] by auto
  show ?thesis
    using assms init canvas by (auto simp: captureImage_def Let_def not_less)
qed

lemma captureImage_height_le:
  assumes "fst (captureImage st) = Some img"
    and "videoWidth st \<le> videoHeight st \<or> (videoWidth st \<le> 1024 \<and> videoHeight st \<le> 768)"
  shows "canvas_height img \<le> 768"
proof (cases "videoWidth st \<le> 1024 \<and> videoHeight st \<le> 768")
  case True
  then show ?thesis using captureImage_unscaled [OF assms(1)] by simp
next
  case False
  with assms(2) have "videoWidth st \<le> videoHeight st" by simp
  then show ?thesis using captureImage_portrait_height [OF assms(1)] False by auto
qed

lemma floor_rat_numeral: "\<lfloor>numeral a / numeral b :: rat\<rfloor> = numeral a div numeral b"
  by (metis floor_divide_of_int_eq of_int_numeral)

lemma ceiling_rat_numeral: "\<lceil>numeral a / numeral b :: rat\<rceil> = - (- numeral a div numeral b)"
  using ceiling_divide_eq_div [of "numeral a" "numeral b", where ?'a = rat] by simp

lemmas double_eval = round_double_def exponent_def pow2_def roundTiesToEven_def
  log2_nat.simps Let_def floor_rat_numeral ceiling_rat_numeral

text \<open>
  Two values of the rounding: the binary64 number written \<open>0.1\<close>, and the height
  \<open>1024 / (1280 / 1024)\<close>, the binary64 number nearest to 819.2.
\<close>

lemma round_double_tenth:
  "round_double (1 / 10) = Finite (3602879701896397 / 36028797018963968)"
  by (simp add: double_eval)

lemma divide_js_example:
  "divide_js (Finite 1024) (divide_js (Finite 1280) (Finite 1024)) =
     Finite (3602879701896397 / 4398046511104)"
  by (simp add: double_eval)

lemma captureImage_canvas_exception:
  "canvasError st = Some e \<Longrightarrow> captureImage st = (None, st)"
  by (simp add: captureImage_def Let_def case_prod_beta)

text \<open>
  The rounding of the division shows in the size of the canvas: at a frame of 1280 by 990
  the exact height \<open>1024 / (1280 / 990)\<close> is 792, the quotient \<open>1280 / 990\<close> rounds upwards,
  and the canvas is 791 high.
\<close>

lemma captureImage_rounding:
  "fst (captureImage (st\<lparr>isInitialized := True, canvasError := None,
                          stream := Some \<lparr>facingMode = Some ''environment'', width = 1280,
                                          height = 990, enabled = True, live = True\<rparr>\<rparr>))
     = Some \<lparr>canvas_width = 1024, canvas_height = 791, quality = 7 / 10\<rparr>"
  by (simp add: captureImage_def videoWidth_def videoHeight_def double_eval)

text \<open>
  Claim C4 at a frame of 1280 by 1024: the landscape branch of \<open>captureImage\<close> caps the
  width only, and the image is 1024 by 819, higher than \<open>maxHeight = 768\<close>.
\<close>

theorem captureImage_landscape_height_exceeds_cap:
  "fst (captureImage (st\<lparr>isInitialized := True, canvasError := None,
                          stream := Some \<lparr>facingMode = Some ''environment'', width = 1280,
                                          height = 1024, enabled = True, live = True\<rparr>\<rparr>))
     = Some \<lparr>canvas_width = 1024, canvas_height = 819, quality = 7 / 10\<rparr>"
  by (simp add: captureImage_def videoWidth_def videoHeight_def double_eval)

lemma switchCamera_denied:
  assumes "isInitialized st" "stream st = Some s"
  shows "switchCamera st (Denied e) fallback =
    (False, snd (initialize
       (st\<lparr>stream := Some (s\<lparr>live := False\<rparr>),
           trace := trace st @
             [GetUserMedia (Exact (if facingMode s = Some ''environment''
                                   then ''user'' else ''environment''))]\<rparr>)
       fallback))"
  using assms by (simp add: switchCamera_def Let_def)

text \<open>
  When the request for the opposite facing mode is refused, \<open>switchCamera\<close> returns
  \<open>false\<close> after one call of \<open>initialize()\<close>, whose request asks for the rear camera as an
  ideal.  When that request is granted its stream becomes the current one; when it is
  refused too, the only stream left is the previous one, stopped.
\<close>

lemma switchCamera_falls_back_to_initialize:
  assumes "isInitialized st" and "stream st = Some s"
  shows "fst (switchCamera st (Denied e) fallback) = False
       \<and> trace (snd (switchCamera st (Denied e) fallback)) =
           trace st @ [GetUserMedia (Exact (if facingMode s = Some ''environment''
                                            then ''user'' else ''environment'')),
                       GetUserMedia (Ideal ''environment'')]
       \<and> (\<forall>s'. fallback = Granted s' \<longrightarrow>
             stream (snd (switchCamera st (Denied e) fallback)) = Some s')
       \<and> (\<forall>e'. fallback = Denied e' \<longrightarrow>
             stream (snd (switchCamera st (Denied e) fallback)) = Some (s\<lparr>live := False\<rparr>)
             \<and> cameraError (snd (switchCamera st (Denied e) fallback)) = Some e')"
  using assms by (cases fallback) (simp_all add: switchCamera_denied initialize_def Let_def)

text \<open>
  Claim C6 at an initialized camera that shows the front camera (facing mode \<open>user\<close>).  The
  request for the rear camera as an exact constraint is refused; the \<open>catch\<close> of
  \<open>switchCamera\<close>, under its comment \<open>Fallback to original camera\<close>, calls \<open>initialize()\<close>,
  which asks for the rear camera again, as an ideal: the front camera is never requested,
  and the stream that is granted and becomes the current one faces the rear.
\<close>

theorem switchCamera_does_not_restore_previous:
  "switchCamera
      ((constructor [] \<lparr>items = Map.empty, mode = Working\<rparr>
                       \<lparr>items = Map.empty, mode = Working\<rparr>)
         \<lparr>isInitialized := True,
          stream := Some \<lparr>facingMode = Some ''user'', width = 1280, height = 720,
                          enabled = True, live = True\<rparr>\<rparr>)
      (Denied (DOMException ''OverconstrainedError''))
      (Granted \<lparr>facingMode = Some ''environment'', width = 1280, height = 720,
                enabled = True, live = True\<rparr>)
    = (False,
       (constructor [] \<lparr>items = Map.empty, mode = Working\<rparr>
                       \<lparr>items = Map.empty, mode = Working\<rparr>)
         \<lparr>isInitialized := True,
          stream := Some \<lparr>facingMode = Some ''environment'', width = 1280, height = 720,
                          enabled = True, live = True\<rparr>,
          trace := [GetUserMedia (Exact ''environment''),
                    GetUserMedia (Ideal ''environment'')]\<rparr>)"
  by (simp add: switchCamera_def initialize_def constructor_def Let_def)

section \<open>Properties of the application controller\<close>


lemma getApiKey_set_key:
  "\<not> falsy k \<Longrightarrow> fst (getApiKey (st\<lparr>apiKey := k\<rparr>)) = k"
  by (simp add: getApiKey_def)



lemma getApiKey_set_key':
  "fst (isConfigured st) \<Longrightarrow> fst (getApiKey (st\<lparr>apiKey := fst (getApiKey st)\<rparr>)) = fst (getApiKey st)"
  using isConfigured_key [of st] by (simp add: getApiKey_set_key)


lemma App_analyzeFood_guard: "isAnalyzing st \<Longrightarrow> App_analyzeFood st env = st"
  by (simp add: App_analyzeFood_def)



text \<open>
  Claim C5 at a state with an analysis in flight: \<open>handleFileUpload\<close> with a valid image
  file reads the file, sends the vision request and the speech request, and resets
  \<open>isAnalyzing\<close>; the handler of the analyze button does nothing in that state.
\<close>

theorem handleFileUpload_runs_during_analysis:
  "isAnalyzing
       ((constructor [] \<lparr>items = Map.empty, mode = Working\<rparr>
                        \<lparr>items = Map.empty, mode = Working\<rparr>)
          \<lparr>apiKey := Some (Raw ''gsk_test''), isAnalyzing := True\<rparr>)
   \<and> App_analyzeFood
       ((constructor [] \<lparr>items = Map.empty, mode = Working\<rparr>
                        \<lparr>items = Map.empty, mode = Working\<rparr>)
          \<lparr>apiKey := Some (Raw ''gsk_test''), isAnalyzing := True\<rparr>)
       \<lparr>vision = Rejected (DOMException ''NetworkError''),
        speech = Rejected (DOMException ''NetworkError''),
        clk = \<lparr>now = 1700000000000, toISOString = ''2023-11-14T22:13:20.000Z''\<rparr>\<rparr>
     = (constructor [] \<lparr>items = Map.empty, mode = Working\<rparr>
                       \<lparr>items = Map.empty, mode = Working\<rparr>)
          \<lparr>apiKey := Some (Raw ''gsk_test''), isAnalyzing := True\<rparr>
   \<and> trace (handleFileUpload
       ((constructor [] \<lparr>items = Map.empty, mode = Working\<rparr>
                        \<lparr>items = Map.empty, mode = Working\<rparr>)
          \<lparr>apiKey := Some (Raw ''gsk_test''), isAnalyzing := True\<rparr>)
       (Some \<lparr>type_file = ''image/png'', size_file = 2048,
              readAsDataURL = Inr ''data:image/png;base64,AAAA''\<rparr>)
       \<lparr>vision = Resolved \<lparr>status = 200, body = Completion (Json (Object
            \<lparr>foodDetected = ''tomato'',
             recipes =
               [\<lparr>name = ''Salad'', description = ''Fresh'', ingredients = [], instructions = [],
                 cookingTime = ''5 minutes'', difficulty = ''Easy''\<rparr>,
                \<lparr>name = ''Soup'', description = ''Warm'', ingredients = [], instructions = [],
                 cookingTime = ''30 minutes'', difficulty = ''Medium''\<rparr>,
                \<lparr>name = ''Sauce'', description = ''Slow'', ingredients = [], instructions = [],
                 cookingTime = ''2 hours'', difficulty = ''Hard''\<rparr>]\<rparr>))\<rparr>,
        speech = Rejected (DOMException ''NetworkError''),
        clk = \<lparr>now = 1700000000000, toISOString = ''2023-11-14T22:13:20.000Z''\<rparr>\<rparr>)
     = [ReadFile,
        Fetch ''https://api.groq.com/openai/v1/chat/completions'' (Some (Raw ''gsk_test''))
          (VisionRequest (DataURL ''data:image/png;base64,AAAA'')),
        Fetch ''https://api.groq.com/openai/v1/audio/speech'' (Some (Raw ''gsk_test''))
          (SpeechRequest (projr (description_text ''tomato''
             [\<lparr>name = ''Salad'', description = ''Fresh'', ingredients = [], instructions = [],
               cookingTime = ''5 minutes'', difficulty = ''Easy''\<rparr>,
              \<lparr>name = ''Soup'', description = ''Warm'', ingredients = [], instructions = [],
               cookingTime = ''30 minutes'', difficulty = ''Medium''\<rparr>,
              \<lparr>name = ''Sauce'', description = ''Slow'', ingredients = [], instructions = [],
               cookingTime = ''2 hours'', difficulty = ''Hard''\<rparr>])))]
   \<and> \<not> isAnalyzing (handleFileUpload
       ((constructor [] \<lparr>items = Map.empty, mode = Working\<rparr>
                        \<lparr>items = Map.empty, mode = Working\<rparr>)
          \<lparr>apiKey := Some (Raw ''gsk_test''), isAnalyzing := True\<rparr>)
       (Some \<lparr>type_file = ''image/png'', size_file = 2048,
              readAsDataURL = Inr ''data:image/png;base64,AAAA''\<rparr>)
       \<lparr>vision = Resolved \<lparr>status = 200, body = Completion (Json (Object
            \<lparr>foodDetected = ''tomato'',
             recipes =
               [\<lparr>name = ''Salad'', description = ''Fresh'', ingredients = [], instructions = [],
                 cookingTime = ''5 minutes'', difficulty = ''Easy''\<rparr>,
                \<lparr>name = ''Soup'', description = ''Warm'', ingredients = [], instructions = [],
                 cookingTime = ''30 minutes'', difficulty = ''Medium''\<rparr>,
                \<lparr>name = ''Sauce'', description = ''Slow'', ingredients = [], instructions = [],
                 cookingTime = ''2 hours'', difficulty = ''Hard''\<rparr>]\<rparr>))\<rparr>,
        speech = Rejected (DOMException ''NetworkError''),
        clk = \<lparr>now = 1700000000000, toISOString = ''2023-11-14T22:13:20.000Z''\<rparr>\<rparr>)"
  by (simp add: handleFileUpload_def App_analyzeFood_def analyzeFood_def
        generateVoiceDescription_def isConfigured_def getApiKey_def constructor_def
        trim_def isWhiteSpace_def visionResult_def speechResult_def ok_def baseUrl_def
        description_text_def showLoading_def showResults_def hideLoading_def resumeStream_def
        saveToHistory_def getHistory_def getItem_def setItem_def JSON_stringify_def
        Let_def case_prod_beta)

end
